theory Spec2Isabelle
  imports Main "HOL-Library.Sublist"
begin

section \<open>Values of a loaded configuration document\<close>

text \<open>
  \<^verbatim>\<open>yaml.load\<close> turns the configuration file into nested Python objects. The loader
  reads them without checking any type, so the model keeps them untyped: the scalars
  \<^verbatim>\<open>None\<close>, \<^verbatim>\<open>bool\<close>, \<^verbatim>\<open>int\<close> and \<^verbatim>\<open>str\<close>, lists, and dicts given by their
  items in insertion order (the keys of one dict are pairwise different). Floats and
  timestamps are left out.
\<close>

datatype yaml =
    YNull
  | YBool bool
  | YInt int
  | YStr string
  | YList "yaml list"
  | YDict "(yaml \<times> yaml) list"

type_synonym pydict = "(yaml \<times> yaml) list"

text \<open>
  The exceptions the loader can end with. They are the ones Python raises by itself:
  the module declares no exception class and has no \<^verbatim>\<open>raise\<close> and no handler
  (its \<^verbatim>\<open>try\<close>/\<^verbatim>\<open>except\<close> is commented out). \<open>IOError\<close> stands for what \<^verbatim>\<open>open\<close>
  raises when the operating system refuses the path (\<^verbatim>\<open>OSError\<close> and its subclasses in
  Python 3, whatever the error number), \<open>ValueError\<close> is what it raises in Python 3 for
  a path with a NUL character, and \<open>YAMLError\<close> what \<^verbatim>\<open>yaml.load\<close> raises on
  malformed text.
\<close>

datatype exn =
    KeyError string
  | TypeError
  | ValueError
  | IOError
  | YAMLError

text \<open>Sequencing of steps that may raise: the first exception ends the evaluation.\<close>

definition and_then :: "exn + 'a \<Rightarrow> ('a \<Rightarrow> exn + 'b) \<Rightarrow> exn + 'b" where
  "and_then r f = (case r of Inl e \<Rightarrow> Inl e | Inr x \<Rightarrow> f x)"

subsection \<open>The Python operations the loader applies\<close>

text \<open>Keys are compared with \<^verbatim>\<open>==\<close>, under which \<^verbatim>\<open>True == 1\<close> and \<^verbatim>\<open>False == 0\<close>.\<close>

fun key_norm :: "yaml \<Rightarrow> yaml" where
  "key_norm (YBool b) = YInt (if b then 1 else 0)"
| "key_norm k = k"

definition py_eq :: "yaml \<Rightarrow> yaml \<Rightarrow> bool" where
  "py_eq a b = (key_norm a = key_norm b)"

fun hashable :: "yaml \<Rightarrow> bool" where
  "hashable (YList xs) = False"
| "hashable (YDict kvs) = False"
| "hashable k = True"

fun dict_get :: "pydict \<Rightarrow> yaml \<Rightarrow> yaml option" where
  "dict_get [] k = None"
| "dict_get ((k', v) # kvs) k = (if py_eq k' k then Some v else dict_get kvs k)"

text \<open>
  \<^verbatim>\<open>d[k] = v\<close> on a dict that keeps insertion order: a key already present keeps its
  place (and its first spelling) and takes the new value; a new key goes last.
\<close>

fun dict_update :: "pydict \<Rightarrow> yaml \<Rightarrow> yaml \<Rightarrow> pydict" where
  "dict_update [] k v = [(k, v)]"
| "dict_update ((k', v') # kvs) k v =
     (if py_eq k' k then (k', v) # kvs else (k', v') # dict_update kvs k v)"

definition setitem :: "pydict \<Rightarrow> yaml \<Rightarrow> yaml \<Rightarrow> exn + pydict" where
  "setitem d k v = (if hashable k then Inr (dict_update d k v) else Inl TypeError)"

text \<open>\<^verbatim>\<open>x[k]\<close> for a string \<open>k\<close>: only a dict can be indexed by a string.\<close>

fun getitem :: "yaml \<Rightarrow> string \<Rightarrow> exn + yaml" where
  "getitem (YDict kvs) k =
     (case dict_get kvs (YStr k) of None \<Rightarrow> Inl (KeyError k) | Some v \<Rightarrow> Inr v)"
| "getitem x k = Inl TypeError"

text \<open>The elements a \<^verbatim>\<open>for\<close> or \<^verbatim>\<open>zip\<close> draws from a value.\<close>

fun iter :: "yaml \<Rightarrow> exn + yaml list" where
  "iter (YList xs) = Inr xs"
| "iter (YDict kvs) = Inr (map fst kvs)"
| "iter (YStr s) = Inr (map (\<lambda>c. YStr [c]) s)"
| "iter x = Inl TypeError"

text \<open>\<^verbatim>\<open>k in x\<close> for a string \<open>k\<close>.\<close>

fun contains :: "yaml \<Rightarrow> string \<Rightarrow> exn + bool" where
  "contains (YDict kvs) k = Inr (dict_get kvs (YStr k) \<noteq> None)"
| "contains (YList xs) k = Inr (YStr k \<in> set xs)"
| "contains (YStr s) k = Inr (sublist k s)"
| "contains x k = Inl TypeError"

text \<open>\<^verbatim>\<open>bool(x)\<close>.\<close>

fun py_bool :: "yaml \<Rightarrow> bool" where
  "py_bool YNull = False"
| "py_bool (YBool b) = b"
| "py_bool (YInt i) = (i \<noteq> 0)"
| "py_bool (YStr s) = (s \<noteq> [])"
| "py_bool (YList xs) = (xs \<noteq> [])"
| "py_bool (YDict kvs) = (kvs \<noteq> [])"

text \<open>\<^verbatim>\<open>dict(pairs)\<close>: the pairs are stored one after the other.\<close>

fun dict_from :: "pydict \<Rightarrow> (yaml \<times> yaml) list \<Rightarrow> exn + pydict" where
  "dict_from d [] = Inr d"
| "dict_from d ((k, v) # ps) = and_then (setitem d k v) (\<lambda>d'. dict_from d' ps)"

section \<open>The descriptor classes\<close>

text \<open>
  Modelled from the spec: the module \<^verbatim>\<open>models\<close> (the classes \<^verbatim>\<open>Facts\<close>, \<^verbatim>\<open>Dimension\<close>
  and \<^verbatim>\<open>Cube\<close>) is not among the sources. Following the data model of the
  specification, each class is a record of the keyword arguments its constructor is
  called with, stored as they are given.
\<close>

record Facts =
  table_name :: yaml
  keys :: pydict
  measures :: yaml

record Dimension =
  name :: yaml
  displayName :: yaml
  columns :: pydict

record Cube =
  xmla_authentication :: bool
  name :: yaml
  source :: yaml
  facts :: "Facts list"
  dimensions :: "Dimension list"

section \<open>The file system and the environment\<close>

text \<open>
  A path names nothing, a directory, a regular file, or a special file (a device, a pipe,
  a socket), after the links on the way are followed. A file is given by whether the
  process may read it and by what \<^verbatim>\<open>yaml.load\<close> makes of its text: a document, or
  the exception of the parser.
\<close>

datatype node = Dir | File bool "exn + yaml" | Special bool "exn + yaml"

type_synonym filesystem = "string \<Rightarrow> node option"

definition isfile :: "filesystem \<Rightarrow> string \<Rightarrow> bool" where
  "isfile fs p = (case fs p of Some (File r c) \<Rightarrow> True | _ \<Rightarrow> False)"

text \<open>
  \<^verbatim>\<open>open\<close>, for reading. A path is the string of bytes that is handed to the operating
  system; one with a NUL character is refused before the operating system sees it. Which error the operating system gives for a path that it cannot open
  (nothing there, a component that is no directory, a name too long, a directory, no
  permission) is not told apart: all of them are \<open>IOError\<close>.
\<close>

definition open_file :: "filesystem \<Rightarrow> string \<Rightarrow> exn + (exn + yaml)" where
  "open_file fs p =
     (if CHR 0x00 \<in> set p then Inl ValueError
      else case fs p of
        None \<Rightarrow> Inl IOError
      | Some Dir \<Rightarrow> Inl IOError
      | Some (File r c) \<Rightarrow> if r then Inr c else Inl IOError
      | Some (Special r c) \<Rightarrow> if r then Inr c else Inl IOError)"

text \<open>\<^verbatim>\<open>os.path.join\<close> of \<^verbatim>\<open>posixpath\<close>.\<close>

definition ends_with_sep :: "string \<Rightarrow> bool" where
  "ends_with_sep p = (case rev p of [] \<Rightarrow> False | c # cs \<Rightarrow> c = CHR ''/'')"

definition join_step :: "string \<Rightarrow> string \<Rightarrow> string" where
  "join_step path b =
     (if prefix ''/'' b then b
      else if path = [] \<or> ends_with_sep path then path @ b
      else path @ ''/'' @ b)"

definition os_path_join :: "string \<Rightarrow> string list \<Rightarrow> string" where
  "os_path_join a ps = foldl join_step a ps"

section \<open>ConfigParser\<close>

record ConfigParser =
  cube_config_file :: string

text \<open>
  \<open>env\<close> is \<^verbatim>\<open>os.environ\<close> and \<open>home\<close> is what \<^verbatim>\<open>expanduser("~")\<close> returns.
\<close>

definition get_cube_path :: "(string \<Rightarrow> string option) \<Rightarrow> string \<Rightarrow> string" where
  "get_cube_path env home =
     (let home_directory =
            (case env ''OLAPY_PATH'' of Some v \<Rightarrow> v | None \<Rightarrow> home)
      in os_path_join home_directory [''olapy-data'', ''cubes'', ''cubes-config.yml''])"

text \<open>An argument that is \<^verbatim>\<open>None\<close> or the empty string is false in an \<^verbatim>\<open>if\<close>.\<close>

fun truthy :: "string option \<Rightarrow> bool" where
  "truthy None = False"
| "truthy (Some s) = (s \<noteq> [])"

definition init :: "(string \<Rightarrow> string option) \<Rightarrow> string \<Rightarrow> string option \<Rightarrow> ConfigParser" where
  "init env home cube_config_file_arg =
     (if truthy cube_config_file_arg
      then \<lparr>cube_config_file = the cube_config_file_arg\<rparr>
      else \<lparr>cube_config_file = get_cube_path env home\<rparr>)"

definition config_file_exists :: "ConfigParser \<Rightarrow> filesystem \<Rightarrow> bool" where
  "config_file_exists self fs = isfile fs (cube_config_file self)"

subsection \<open>get\_cube\_config\<close>

definition build_facts :: "yaml \<Rightarrow> exn + Facts list" where
  "build_facts config =
     and_then (getitem config ''facts'') (\<lambda>f.
     and_then (getitem f ''table_name'') (\<lambda>tn.
     and_then (getitem config ''facts'') (\<lambda>f1.
     and_then (getitem f1 ''keys'') (\<lambda>k1.
     and_then (getitem k1 ''columns_names'') (\<lambda>cn.
     and_then (getitem config ''facts'') (\<lambda>f2.
     and_then (getitem f2 ''keys'') (\<lambda>k2.
     and_then (getitem k2 ''refs'') (\<lambda>rf.
     and_then (iter cn) (\<lambda>cns.
     and_then (iter rf) (\<lambda>rfs.
     and_then (dict_from [] (zip cns rfs)) (\<lambda>ks.
     and_then (getitem config ''facts'') (\<lambda>f3.
     and_then (getitem f3 ''measures'') (\<lambda>ms.
       Inr [\<lparr>table_name = tn, keys = ks, measures = ms\<rparr>])))))))))))))"

text \<open>
  One element of the generator over the columns: the pair of the column's name and its
  display name.
\<close>

definition column_pair :: "yaml \<Rightarrow> exn + (yaml \<times> yaml)" where
  "column_pair column =
     and_then (getitem column ''name'') (\<lambda>n.
     and_then (contains column ''column_new_name'') (\<lambda>has_new.
       if \<not> has_new
       then and_then (getitem column ''name'') (\<lambda>n'. Inr (n, n'))
       else and_then (getitem column ''column_new_name'') (\<lambda>v. Inr (n, v))))"

text \<open>
  \<^verbatim>\<open>OrderedDict(generator)\<close>: each pair is computed and stored before the next column
  is looked at.
\<close>

fun ordered_dict :: "pydict \<Rightarrow> yaml list \<Rightarrow> exn + pydict" where
  "ordered_dict d [] = Inr d"
| "ordered_dict d (column # cs) =
     and_then (column_pair column) (\<lambda>(k, v).
     and_then (setitem d k v) (\<lambda>d'. ordered_dict d' cs))"

definition build_columns :: "yaml \<Rightarrow> exn + pydict" where
  "build_columns dimension =
     and_then (getitem dimension ''dimension'') (\<lambda>d.
     and_then (contains d ''columns'') (\<lambda>has_columns.
       if has_columns
       then and_then (getitem dimension ''dimension'') (\<lambda>d'.
            and_then (getitem d' ''columns'') (\<lambda>cs.
            and_then (iter cs) (\<lambda>cols. ordered_dict [] cols)))
       else Inr []))"

definition build_dimension :: "yaml \<Rightarrow> exn + Dimension" where
  "build_dimension dimension =
     and_then (getitem dimension ''dimension'') (\<lambda>d.
     and_then (getitem d ''name'') (\<lambda>n.
     and_then (getitem dimension ''dimension'') (\<lambda>d'.
     and_then (getitem d' ''displayName'') (\<lambda>dn.
     and_then (build_columns dimension) (\<lambda>cols.
       Inr \<lparr>Dimension.name = n, displayName = dn, columns = cols\<rparr>)))))"

fun build_dimensions :: "yaml list \<Rightarrow> exn + Dimension list" where
  "build_dimensions [] = Inr []"
| "build_dimensions (dimension # ds) =
     and_then (build_dimension dimension) (\<lambda>x.
     and_then (build_dimensions ds) (\<lambda>xs. Inr (x # xs)))"

text \<open>The part of the method that works on the loaded document.\<close>

definition cube_of_config :: "yaml \<Rightarrow> exn + Cube" where
  "cube_of_config config =
     and_then (build_facts config) (\<lambda>fs.
     and_then (getitem config ''dimensions'') (\<lambda>dv.
     and_then (iter dv) (\<lambda>ds.
     and_then (build_dimensions ds) (\<lambda>dims.
     and_then (getitem config ''xmla_authentication'') (\<lambda>xa.
     and_then (getitem config ''name'') (\<lambda>nm.
     and_then (getitem config ''source'') (\<lambda>src.
       Inr \<lparr>xmla_authentication = py_bool xa, name = nm, source = src,
            facts = fs, dimensions = dims\<rparr>)))))))"

text \<open>The path the method opens.\<close>

definition file_path :: "ConfigParser \<Rightarrow> string option \<Rightarrow> string" where
  "file_path self conf_file =
     (if truthy conf_file then the conf_file else cube_config_file self)"

definition get_cube_config :: "ConfigParser \<Rightarrow> filesystem \<Rightarrow> string option \<Rightarrow> exn + Cube" where
  "get_cube_config self fs conf_file =
     and_then (open_file fs (file_path self conf_file)) (\<lambda>parsed.
     and_then parsed cube_of_config)"

section \<open>Vocabulary of the properties\<close>

text \<open>A field reached through nested sections, such as \<^verbatim>\<open>facts.keys.refs\<close>.\<close>

fun lookup_path :: "yaml \<Rightarrow> string list \<Rightarrow> exn + yaml" where
  "lookup_path x [] = Inr x"
| "lookup_path x (k # ks) = and_then (getitem x k) (\<lambda>y. lookup_path y ks)"

text \<open>The dict that storing a list of pairs one after the other leaves.\<close>

definition dict_of_pairs :: "(yaml \<times> yaml) list \<Rightarrow> pydict" where
  "dict_of_pairs ps = foldl (\<lambda>d (k, v). dict_update d k v) [] ps"

text \<open>A list of keys with every later repetition of a key left out.\<close>

definition insert_key :: "yaml list \<Rightarrow> yaml \<Rightarrow> yaml list" where
  "insert_key ks k = (if list_ex (\<lambda>k'. py_eq k' k) ks then ks else ks @ [k])"

definition first_occurrences :: "yaml list \<Rightarrow> yaml list" where
  "first_occurrences ks = foldl insert_key [] ks"

text \<open>No two keys of the list are equal for Python.\<close>

definition distinct_keys :: "yaml list \<Rightarrow> bool" where
  "distinct_keys ks = distinct (map key_norm ks)"

text \<open>The base directory with the separator \<^verbatim>\<open>os.path.join\<close> puts after it.\<close>

definition with_sep :: "string \<Rightarrow> string" where
  "with_sep base = (if base = [] \<or> ends_with_sep base then base else base @ ''/'')"


text \<open>The value is a mapping that has no such key.\<close>

fun lacks :: "yaml \<Rightarrow> string \<Rightarrow> bool" where
  "lacks (YDict kvs) k = (dict_get kvs (YStr k) = None)"
| "lacks x k = False"


subsection \<open>The documents of the scenarios\<close>

text \<open>
  The example cube \<^verbatim>\<open>labster\<close> of the class documentation, with the parts that the
  scenarios vary as parameters: the authentication flag, the two lists of the fact keys,
  and the display name and the column entries of the dimension \<^verbatim>\<open>orgunit\<close>.
\<close>

definition facts_section :: "yaml \<Rightarrow> yaml \<Rightarrow> yaml" where
  "facts_section cn rf = YDict
     [(YStr ''table_name'', YStr ''stats_line''),
      (YStr ''keys'', YDict [(YStr ''columns_names'', cn), (YStr ''refs'', rf)]),
      (YStr ''measures'', YList [YStr ''montant'', YStr ''salaire_brut_mensuel''])]"

definition orgunit :: "yaml \<Rightarrow> yaml list \<Rightarrow> yaml" where
  "orgunit dn cols = YDict
     [(YStr ''dimension'', YDict
        [(YStr ''name'', YStr ''orgunit''),
         (YStr ''displayName'', dn),
         (YStr ''columns'', YList cols)])]"

definition labster :: "yaml \<Rightarrow> yaml \<Rightarrow> yaml \<Rightarrow> yaml \<Rightarrow> yaml list \<Rightarrow> pydict" where
  "labster xa cn rf dn cols =
     [(YStr ''xmla_authentication'', xa),
      (YStr ''name'', YStr ''labster''),
      (YStr ''source'', YStr ''csv''),
      (YStr ''facts'', facts_section cn rf),
      (YStr ''dimensions'', YList [orgunit dn cols])]"

text \<open>
  Scenario A leaves the authentication flag and the display name of the dimension open.
\<close>

definition scenario_A :: "yaml \<Rightarrow> yaml \<Rightarrow> yaml" where
  "scenario_A xa dn = YDict
     (labster xa (YList [YStr ''departement_id'']) (YList [YStr ''orgunit.id'']) dn
        [YDict [(YStr ''name'', YStr ''type'')], YDict [(YStr ''name'', YStr ''nom'')]])"

definition cube_A :: "yaml \<Rightarrow> yaml \<Rightarrow> Cube" where
  "cube_A xa dn =
     \<lparr>xmla_authentication = py_bool xa, name = YStr ''labster'', source = YStr ''csv'',
      facts = [\<lparr>table_name = YStr ''stats_line'',
                keys = [(YStr ''departement_id'', YStr ''orgunit.id'')],
                measures = YList [YStr ''montant'', YStr ''salaire_brut_mensuel'']\<rparr>],
      dimensions = [\<lparr>Dimension.name = YStr ''orgunit'', displayName = dn,
                     columns = [(YStr ''type'', YStr ''type''), (YStr ''nom'', YStr ''nom'')]\<rparr>]\<rparr>"

text \<open>Scenario B: the second column of the dimension declares a new name.\<close>

definition scenario_B :: yaml where
  "scenario_B = YDict
     (labster (YBool False) (YList [YStr ''departement_id'']) (YList [YStr ''orgunit.id''])
        (YStr ''Organisation'')
        [YDict [(YStr ''name'', YStr ''type'')],
         YDict [(YStr ''name'', YStr ''nom''), (YStr ''column_new_name'', YStr ''Name'')]])"

definition cube_B :: Cube where
  "cube_B =
     \<lparr>xmla_authentication = False, name = YStr ''labster'', source = YStr ''csv'',
      facts = [\<lparr>table_name = YStr ''stats_line'',
                keys = [(YStr ''departement_id'', YStr ''orgunit.id'')],
                measures = YList [YStr ''montant'', YStr ''salaire_brut_mensuel'']\<rparr>],
      dimensions = [\<lparr>Dimension.name = YStr ''orgunit'', displayName = YStr ''Organisation'',
                     columns = [(YStr ''type'', YStr ''type''), (YStr ''nom'', YStr ''Name'')]\<rparr>]\<rparr>"

text \<open>
  The document of scenario A with one more key column than references, and the one of
  scenario C with an empty \<^verbatim>\<open>facts\<close> section.
\<close>

definition scenario_surplus :: yaml where
  "scenario_surplus = YDict
     (labster (YBool False) (YList [YStr ''departement_id'', YStr ''region_id''])
        (YList [YStr ''orgunit.id'']) (YStr ''Organisation'')
        [YDict [(YStr ''name'', YStr ''type'')], YDict [(YStr ''name'', YStr ''nom'')]])"


text \<open>A document whose dimension has no \<^verbatim>\<open>columns\<close> key.\<close>

definition bare_orgunit :: yaml where
  "bare_orgunit = YDict
     [(YStr ''dimension'', YDict
        [(YStr ''name'', YStr ''orgunit''), (YStr ''displayName'', YStr ''Organisation'')])]"

definition bare_document :: yaml where
  "bare_document = YDict
     [(YStr ''xmla_authentication'', YBool False),
      (YStr ''name'', YStr ''labster''),
      (YStr ''source'', YStr ''csv''),
      (YStr ''facts'', facts_section (YList [YStr ''departement_id'']) (YList [YStr ''orgunit.id''])),
      (YStr ''dimensions'', YList [bare_orgunit])]"

definition bare_cube :: Cube where
  "bare_cube =
     \<lparr>xmla_authentication = False, name = YStr ''labster'', source = YStr ''csv'',
      facts = [\<lparr>table_name = YStr ''stats_line'',
                keys = [(YStr ''departement_id'', YStr ''orgunit.id'')],
                measures = YList [YStr ''montant'', YStr ''salaire_brut_mensuel'']\<rparr>],
      dimensions = [\<lparr>Dimension.name = YStr ''orgunit'',
                     displayName = YStr ''Organisation'', columns = []\<rparr>]\<rparr>"

text \<open>
  Two entries of the dimension declare the same column, the first of them with a new
  name.
\<close>

definition scenario_repeated_column :: yaml where
  "scenario_repeated_column = YDict
     (labster (YBool False) (YList [YStr ''departement_id'']) (YList [YStr ''orgunit.id''])
        (YStr ''Organisation'')
        [YDict [(YStr ''name'', YStr ''type''), (YStr ''column_new_name'', YStr ''Kind'')],
         YDict [(YStr ''name'', YStr ''type'')]])"

definition cube_repeated_column :: Cube where
  "cube_repeated_column =
     \<lparr>xmla_authentication = False, name = YStr ''labster'', source = YStr ''csv'',
      facts = [\<lparr>table_name = YStr ''stats_line'',
                keys = [(YStr ''departement_id'', YStr ''orgunit.id'')],
                measures = YList [YStr ''montant'', YStr ''salaire_brut_mensuel'']\<rparr>],
      dimensions = [\<lparr>Dimension.name = YStr ''orgunit'', displayName = YStr ''Organisation'',
                     columns = [(YStr ''type'', YStr ''type'')]\<rparr>]\<rparr>"

text \<open>The same key column is declared twice, with two references.\<close>

definition scenario_repeated_key :: yaml where
  "scenario_repeated_key = YDict
     (labster (YBool False) (YList [YStr ''departement_id'', YStr ''departement_id''])
        (YList [YStr ''orgunit.id'', YStr ''region.id'']) (YStr ''Organisation'')
        [YDict [(YStr ''name'', YStr ''type'')], YDict [(YStr ''name'', YStr ''nom'')]])"

definition cube_repeated_key :: Cube where
  "cube_repeated_key =
     \<lparr>xmla_authentication = False, name = YStr ''labster'', source = YStr ''csv'',
      facts = [\<lparr>table_name = YStr ''stats_line'',
                keys = [(YStr ''departement_id'', YStr ''region.id'')],
                measures = YList [YStr ''montant'', YStr ''salaire_brut_mensuel'']\<rparr>],
      dimensions = [\<lparr>Dimension.name = YStr ''orgunit'', displayName = YStr ''Organisation'',
                     columns = [(YStr ''type'', YStr ''type''), (YStr ''nom'', YStr ''nom'')]\<rparr>]\<rparr>"

text \<open>
  The document of scenario A with the fields that the scenario lists and no other: it has
  no \<^verbatim>\<open>xmla_authentication\<close>, and its dimension has no \<^verbatim>\<open>displayName\<close>.
\<close>

definition scenario_A_as_listed :: yaml where
  "scenario_A_as_listed = YDict
     [(YStr ''name'', YStr ''labster''),
      (YStr ''source'', YStr ''csv''),
      (YStr ''facts'',
         facts_section (YList [YStr ''departement_id'']) (YList [YStr ''orgunit.id''])),
      (YStr ''dimensions'', YList
         [YDict [(YStr ''dimension'', YDict
            [(YStr ''name'', YStr ''orgunit''),
             (YStr ''columns'', YList
                [YDict [(YStr ''name'', YStr ''type'')],
                 YDict [(YStr ''name'', YStr ''nom'')]])])]])]"







text \<open>A file system that holds one readable file, and a loader made for its path.\<close>

definition one_file :: "string \<Rightarrow> exn + yaml \<Rightarrow> filesystem" where
  "one_file p c = (\<lambda>q. if q = p then Some (File True c) else None)"

definition parser :: ConfigParser where
  "parser = \<lparr>cube_config_file = ''/home/olapy/olapy-data/cubes/cubes-config.yml''\<rparr>"

definition disk :: "yaml \<Rightarrow> filesystem" where
  "disk config = one_file ''/home/olapy/olapy-data/cubes/cubes-config.yml'' (Inr config)"

section \<open>Auxiliary facts\<close>

subsection \<open>Sequencing\<close>

lemma and_then_Inr [simp]: "and_then (Inr x) f = f x"
  by (simp add: and_then_def)

lemma and_then_Inl [simp]: "and_then (Inl e) f = Inl e"
  by (simp add: and_then_def)

lemma and_then_return [simp]: "and_then r Inr = r"
  by (cases r) simp_all

lemma and_then_Inr_iff: "and_then r f = Inr y \<longleftrightarrow> (\<exists>x. r = Inr x \<and> f x = Inr y)"
  by (cases r) simp_all


subsection \<open>Keys and dicts\<close>

lemma py_eq_refl [simp]: "py_eq a a"
  by (simp add: py_eq_def)

lemma py_eq_YStr [simp]: "py_eq k (YStr s) \<longleftrightarrow> k = YStr s"
  by (cases k) (simp_all add: py_eq_def)

lemma dict_get_append:
  "dict_get (xs @ ys) k = (case dict_get xs k of Some v \<Rightarrow> Some v | None \<Rightarrow> dict_get ys k)"
  by (induction xs) auto

lemma dict_get_update:
  "dict_get (dict_update d k v) k' = (if py_eq k k' then Some v else dict_get d k')"
  by (induction d) (auto simp: py_eq_def)

lemma keys_dict_update: "map fst (dict_update d k v) = insert_key (map fst d) k"
  by (induction d) (auto simp: insert_key_def)

lemma dict_get_foldl:
  "dict_get (foldl (\<lambda>d (k, v). dict_update d k v) d ps) k =
     (case dict_get (rev ps) k of Some v \<Rightarrow> Some v | None \<Rightarrow> dict_get d k)"
proof (induction ps arbitrary: d)
  case Nil
  show ?case by simp
next
  case (Cons p ps)
  show ?case
    by (cases p) (simp add: Cons.IH dict_get_append dict_get_update split: option.splits)
qed

lemma dict_get_dict_of_pairs: "dict_get (dict_of_pairs ps) k = dict_get (rev ps) k"
  by (simp add: dict_of_pairs_def dict_get_foldl split: option.splits)

lemma keys_foldl:
  "map fst (foldl (\<lambda>d (k, v). dict_update d k v) d ps) = foldl insert_key (map fst d) (map fst ps)"
  by (induction ps arbitrary: d) (auto simp: keys_dict_update)

lemma keys_dict_of_pairs: "map fst (dict_of_pairs ps) = first_occurrences (map fst ps)"
  by (simp add: dict_of_pairs_def first_occurrences_def keys_foldl)

lemma list_ex_py_eq: "list_ex (\<lambda>k'. py_eq k' k) ks \<longleftrightarrow> key_norm k \<in> set (map key_norm ks)"
  by (induction ks) (auto simp: py_eq_def)

lemma foldl_insert_key_distinct:
  "distinct (map key_norm (acc @ ks)) \<Longrightarrow> foldl insert_key acc ks = acc @ ks"
proof (induction ks arbitrary: acc)
  case Nil
  show ?case by simp
next
  case (Cons k ks)
  from Cons.prems have "insert_key acc k = acc @ [k]"
    by (auto simp: insert_key_def list_ex_py_eq)
  moreover from Cons.prems have "distinct (map key_norm ((acc @ [k]) @ ks))"
    by simp
  ultimately show ?case
    using Cons.IH [of "acc @ [k]"] by simp
qed

lemma first_occurrences_distinct: "distinct_keys ks \<Longrightarrow> first_occurrences ks = ks"
  using foldl_insert_key_distinct [of "[]" ks]
  by (simp add: distinct_keys_def first_occurrences_def)

lemma dict_get_last_occurrence:
  assumes "p < length ps"
    and "\<forall>q. p < q \<and> q < length ps \<longrightarrow> \<not> py_eq (fst (ps ! q)) (fst (ps ! p))"
  shows "dict_get (rev ps) (fst (ps ! p)) = Some (snd (ps ! p))"
  using assms
proof (induction ps arbitrary: p rule: rev_induct)
  case Nil
  then show ?case by simp
next
  case (snoc x xs)
  show ?case
  proof (cases "p = length xs")
    case True
    then show ?thesis by (cases x) simp
  next
    case False
    with snoc.prems have p: "p < length xs" by simp
    from snoc.prems(2) p have last: "\<not> py_eq (fst x) (fst (xs ! p))"
      by (auto simp: nth_append dest: spec [of _ "length xs"])
    have "\<forall>q. p < q \<and> q < length xs \<longrightarrow> \<not> py_eq (fst (xs ! q)) (fst (xs ! p))"
    proof (intro allI impI)
      fix q assume q: "p < q \<and> q < length xs"
      with snoc.prems(2) [rule_format, of q] p show "\<not> py_eq (fst (xs ! q)) (fst (xs ! p))"
        by (simp add: nth_append)
    qed
    with snoc.IH p have "dict_get (rev xs) (fst (xs ! p)) = Some (snd (xs ! p))"
      by blast
    with last p show ?thesis
      by (cases x) (simp add: nth_append)
  qed
qed

lemma dict_get_final_occurrence:
  assumes "p < length ps"
  shows "\<exists>l. p \<le> l \<and> l < length ps \<and> py_eq (fst (ps ! l)) (fst (ps ! p)) \<and>
           (\<forall>r. l < r \<and> r < length ps \<longrightarrow> \<not> py_eq (fst (ps ! r)) (fst (ps ! p))) \<and>
           dict_get (rev ps) (fst (ps ! p)) = Some (snd (ps ! l))"
  using assms
proof (induction ps rule: rev_induct)
  case Nil
  then show ?case by simp
next
  case (snoc x xs)
  let ?k = "fst ((xs @ [x]) ! p)"
  show ?case
  proof (cases "py_eq (fst x) ?k")
    case True
    with snoc.prems have "p \<le> length xs \<and> length xs < length (xs @ [x]) \<and>
        py_eq (fst ((xs @ [x]) ! length xs)) ?k \<and>
        (\<forall>r. length xs < r \<and> r < length (xs @ [x]) \<longrightarrow> \<not> py_eq (fst ((xs @ [x]) ! r)) ?k) \<and>
        dict_get (rev (xs @ [x])) ?k = Some (snd ((xs @ [x]) ! length xs))"
      by (cases x) auto
    then show ?thesis by blast
  next
    case False
    then have "p \<noteq> length xs" by auto
    with snoc.prems have p: "p < length xs" by simp
    then have k: "?k = fst (xs ! p)"
      by (simp add: nth_append)
    from snoc.IH [OF p] obtain l where l: "p \<le> l" "l < length xs"
      and eq: "py_eq (fst (xs ! l)) (fst (xs ! p))"
      and final: "\<forall>r. l < r \<and> r < length xs \<longrightarrow> \<not> py_eq (fst (xs ! r)) (fst (xs ! p))"
      and get: "dict_get (rev xs) (fst (xs ! p)) = Some (snd (xs ! l))"
      by blast
    have "\<not> py_eq (fst ((xs @ [x]) ! r)) ?k" if r: "l < r \<and> r < length (xs @ [x])" for r
    proof (cases "r < length xs")
      case True
      with final r k show ?thesis by (simp add: nth_append)
    next
      case False
      with r have "r = length xs" by simp
      with \<open>\<not> py_eq (fst x) ?k\<close> show ?thesis by simp
    qed
    moreover from False get k have "dict_get (rev (xs @ [x])) ?k = Some (snd (xs ! l))"
      by (cases x) simp
    ultimately have "p \<le> l \<and> l < length (xs @ [x]) \<and>
        py_eq (fst ((xs @ [x]) ! l)) ?k \<and>
        (\<forall>r. l < r \<and> r < length (xs @ [x]) \<longrightarrow> \<not> py_eq (fst ((xs @ [x]) ! r)) ?k) \<and>
        dict_get (rev (xs @ [x])) ?k = Some (snd ((xs @ [x]) ! l))"
      using l eq k by (simp add: nth_append)
    then show ?thesis by blast
  qed
qed

lemma dict_from_Inr:
  "list_all hashable (map fst ps) \<Longrightarrow>
     dict_from d ps = Inr (foldl (\<lambda>d (k, v). dict_update d k v) d ps)"
  by (induction ps arbitrary: d) (auto simp: setitem_def)

lemma dict_from_Inr_D:
  "dict_from d ps = Inr d' \<Longrightarrow>
     list_all hashable (map fst ps) \<and> d' = foldl (\<lambda>d (k, v). dict_update d k v) d ps"
  by (induction ps arbitrary: d) (auto simp: setitem_def and_then_Inr_iff split: if_splits)


subsection \<open>Reading the document\<close>

lemma getitem_Inr_iff:
  "getitem x k = Inr v \<longleftrightarrow> (\<exists>kvs. x = YDict kvs \<and> dict_get kvs (YStr k) = Some v)"
  by (cases x) (auto split: option.splits)




lemma contains_dict:
  "getitem x k = Inr v \<Longrightarrow> contains x k' = Inr (\<exists>v'. getitem x k' = Inr v')"
  by (cases x) (auto split: option.splits)

lemma lookup_path_1 [simp]: "lookup_path x [k] = getitem x k"
  by (cases "getitem x k") simp_all

subsection \<open>What a successful load has read\<close>

lemma get_cube_config_opened:
  "open_file fs (file_path self conf_file) = Inr (Inr config) \<Longrightarrow>
     get_cube_config self fs conf_file = cube_of_config config"
  by (simp add: get_cube_config_def)

lemma get_cube_config_Inr_D:
  "get_cube_config self fs conf_file = Inr cube \<Longrightarrow>
     \<exists>config. open_file fs (file_path self conf_file) = Inr (Inr config) \<and>
       cube_of_config config = Inr cube"
  by (auto simp: get_cube_config_def and_then_Inr_iff)

lemma cube_of_config_Inr_D:
  assumes "cube_of_config config = Inr cube"
  shows "\<exists>fs dv ds dims xa nm src.
           build_facts config = Inr fs \<and> getitem config ''dimensions'' = Inr dv \<and>
           iter dv = Inr ds \<and> build_dimensions ds = Inr dims \<and>
           getitem config ''xmla_authentication'' = Inr xa \<and>
           getitem config ''name'' = Inr nm \<and> getitem config ''source'' = Inr src \<and>
           cube = \<lparr>xmla_authentication = py_bool xa, name = nm, source = src,
                   facts = fs, dimensions = dims\<rparr>"
  using assms unfolding cube_of_config_def and_then_Inr_iff by blast

lemma build_facts_Inr_D:
  assumes "build_facts config = Inr fs"
  shows "\<exists>f tn k cn rf cns rfs ks ms.
           getitem config ''facts'' = Inr f \<and> getitem f ''table_name'' = Inr tn \<and>
           getitem f ''keys'' = Inr k \<and> getitem k ''columns_names'' = Inr cn \<and>
           getitem k ''refs'' = Inr rf \<and> iter cn = Inr cns \<and> iter rf = Inr rfs \<and>
           dict_from [] (zip cns rfs) = Inr ks \<and> getitem f ''measures'' = Inr ms \<and>
           fs = [\<lparr>table_name = tn, keys = ks, measures = ms\<rparr>]"
  using assms by (auto simp: build_facts_def and_then_Inr_iff)

lemma build_dimensions_Inr_D:
  "build_dimensions ds = Inr dims \<Longrightarrow>
     length dims = length ds \<and> (\<forall>i<length ds. build_dimension (ds ! i) = Inr (dims ! i))"
proof (induction ds arbitrary: dims)
  case Nil
  then show ?case by simp
next
  case (Cons d ds)
  from Cons.prems obtain x xs where x: "build_dimension d = Inr x"
    and xs: "build_dimensions ds = Inr xs" and dims: "dims = x # xs"
    by (auto simp: and_then_Inr_iff)
  from Cons.IH [OF xs] x dims show ?case
    by (auto simp: nth_Cons split: nat.splits)
qed

lemma build_dimension_Inr_D:
  assumes "build_dimension dimension = Inr dim"
  shows "\<exists>d n dn cols. getitem dimension ''dimension'' = Inr d \<and> getitem d ''name'' = Inr n \<and>
           getitem d ''displayName'' = Inr dn \<and> build_columns dimension = Inr cols \<and>
           dim = \<lparr>Dimension.name = n, displayName = dn, columns = cols\<rparr>"
  using assms by (auto simp: build_dimension_def and_then_Inr_iff)

lemma column_pair_Inr_D:
  assumes "column_pair column = Inr p"
  shows "getitem column ''name'' = Inr (fst p) \<and>
         snd p = (case getitem column ''column_new_name'' of Inr new \<Rightarrow> new | Inl e \<Rightarrow> fst p)"
proof -
  from assms obtain n where n: "getitem column ''name'' = Inr n"
    by (auto simp: column_pair_def and_then_Inr_iff)
  from contains_dict [OF n]
  have c: "contains column ''column_new_name'' = Inr (\<exists>v. getitem column ''column_new_name'' = Inr v)" .
  show ?thesis
  proof (cases "getitem column ''column_new_name''")
    case (Inl e)
    with assms n c show ?thesis by (auto simp: column_pair_def)
  next
    case (Inr v)
    with assms n c show ?thesis by (auto simp: column_pair_def)
  qed
qed

lemma ordered_dict_Inr_D:
  "ordered_dict d cols = Inr d' \<Longrightarrow>
     \<exists>pairs. map column_pair cols = map Inr pairs \<and>
       d' = foldl (\<lambda>d (k, v). dict_update d k v) d pairs"
proof (induction cols arbitrary: d)
  case Nil
  then show ?case by simp
next
  case (Cons c cols)
  from Cons.prems obtain k v d1 where p: "column_pair c = Inr (k, v)"
    and s: "setitem d k v = Inr d1" and r: "ordered_dict d1 cols = Inr d'"
    by (auto simp: and_then_Inr_iff)
  from s have d1: "d1 = dict_update d k v"
    by (simp add: setitem_def split: if_splits)
  from Cons.IH [OF r] obtain pairs where "map column_pair cols = map Inr pairs"
    and "d' = foldl (\<lambda>d (k, v). dict_update d k v) d1 pairs" by blast
  with p d1 have "map column_pair (c # cols) = map Inr ((k, v) # pairs) \<and>
      d' = foldl (\<lambda>d (k, v). dict_update d k v) d ((k, v) # pairs)"
    by simp
  then show ?case by blast
qed

lemma build_columns_Inr_D:
  assumes "build_columns dimension = Inr dcols"
    and "lookup_path dimension [''dimension'', ''columns''] = Inr cs"
    and "iter cs = Inr cols"
  shows "\<exists>pairs. map column_pair cols = map Inr pairs \<and> dcols = dict_of_pairs pairs"
proof -
  from assms(2) obtain d where d: "getitem dimension ''dimension'' = Inr d"
    and cs: "getitem d ''columns'' = Inr cs"
    by (auto simp: and_then_Inr_iff)
  from contains_dict [OF cs, of "''columns''"] cs
  have "contains d ''columns'' = Inr True" by simp
  with assms(1) d cs assms(3) have "ordered_dict [] cols = Inr dcols"
    by (simp add: build_columns_def)
  from ordered_dict_Inr_D [OF this] show ?thesis
    by (simp add: dict_of_pairs_def)
qed

text \<open>The descriptor of dimension entry \<open>i\<close> of a loaded document.\<close>

lemma loaded_dimension:
  assumes "get_cube_config self fs conf_file = Inr cube"
    and "open_file fs (file_path self conf_file) = Inr (Inr config)"
    and "lookup_path config [''dimensions''] = Inr dv"
    and "iter dv = Inr ds"
    and "i < length ds"
  shows "length (dimensions cube) = length ds \<and>
         build_dimension (ds ! i) = Inr (dimensions cube ! i)"
proof -
  from assms(1,2) have "cube_of_config config = Inr cube"
    by (simp add: get_cube_config_opened)
  from cube_of_config_Inr_D [OF this] assms(3,4)
  obtain dims where "build_dimensions ds = Inr dims" and "dimensions cube = dims"
    by auto
  with build_dimensions_Inr_D [of ds dims] assms(5) show ?thesis
    by simp
qed

lemma loaded_columns:
  assumes "get_cube_config self fs conf_file = Inr cube"
    and "open_file fs (file_path self conf_file) = Inr (Inr config)"
    and "lookup_path config [''dimensions''] = Inr dv"
    and "iter dv = Inr ds"
    and "i < length ds"
    and "lookup_path (ds ! i) [''dimension'', ''columns''] = Inr cs"
    and "iter cs = Inr cols"
  shows "\<exists>pairs. map column_pair cols = map Inr pairs \<and>
           columns (dimensions cube ! i) = dict_of_pairs pairs"
proof -
  from loaded_dimension [OF assms(1-5)]
  have "build_dimension (ds ! i) = Inr (dimensions cube ! i)" by simp
  from build_dimension_Inr_D [OF this]
  have "build_columns (ds ! i) = Inr (columns (dimensions cube ! i))" by auto
  from build_columns_Inr_D [OF this assms(6,7)] show ?thesis .
qed

subsection \<open>The facts and the columns of a loaded document\<close>

lemma loaded_facts:
  assumes "get_cube_config self fs conf_file = Inr cube"
    and "open_file fs (file_path self conf_file) = Inr (Inr config)"
    and "lookup_path config [''facts'', ''keys'', ''columns_names''] = Inr cn"
    and "iter cn = Inr cns"
    and "lookup_path config [''facts'', ''keys'', ''refs''] = Inr rf"
    and "iter rf = Inr rfs"
  shows "\<exists>tn ms. facts cube =
           [\<lparr>table_name = tn, keys = dict_of_pairs (zip cns rfs), measures = ms\<rparr>]"
proof -
  from assms(1,2) have "cube_of_config config = Inr cube"
    by (simp add: get_cube_config_opened)
  from cube_of_config_Inr_D [OF this]
  have "build_facts config = Inr (facts cube)" by auto
  from build_facts_Inr_D [OF this] assms(3-6)
  obtain tn ks ms where ks: "dict_from [] (zip cns rfs) = Inr ks"
    and f: "facts cube = [\<lparr>table_name = tn, keys = ks, measures = ms\<rparr>]"
    by (auto simp: and_then_Inr_iff)
  from dict_from_Inr_D [OF ks] have "ks = dict_of_pairs (zip cns rfs)"
    by (simp add: dict_of_pairs_def)
  with f show ?thesis by blast
qed

lemma column_names:
  "map column_pair cols = map Inr pairs \<Longrightarrow>
     map (\<lambda>c. getitem c ''name'') cols = map Inr (map fst pairs)"
proof (induction cols arbitrary: pairs)
  case Nil
  then show ?case by simp
next
  case (Cons c cols)
  then obtain p ps where pairs: "pairs = p # ps" and p: "column_pair c = Inr p"
    and ps: "map column_pair cols = map Inr ps"
    by (cases pairs) auto
  from column_pair_Inr_D [OF p] Cons.IH [OF ps] pairs show ?case by simp
qed

lemma build_facts_total:
  assumes "lookup_path config [''facts'', ''table_name''] = Inr tn"
    and "lookup_path config [''facts'', ''keys'', ''columns_names''] = Inr cn"
    and "iter cn = Inr cns"
    and "lookup_path config [''facts'', ''keys'', ''refs''] = Inr rf"
    and "iter rf = Inr rfs"
    and "list_all hashable (take (length rfs) cns)"
    and "lookup_path config [''facts'', ''measures''] = Inr ms"
  shows "build_facts config =
           Inr [\<lparr>table_name = tn, keys = dict_of_pairs (zip cns rfs), measures = ms\<rparr>]"
proof -
  from assms(1) obtain f where f: "getitem config ''facts'' = Inr f"
    and tn: "getitem f ''table_name'' = Inr tn"
    by (auto simp: and_then_Inr_iff)
  from assms(2) f obtain k where k: "getitem f ''keys'' = Inr k"
    and cn: "getitem k ''columns_names'' = Inr cn"
    by (auto simp: and_then_Inr_iff)
  from assms(4) f k have rf: "getitem k ''refs'' = Inr rf"
    by (auto simp: and_then_Inr_iff)
  from assms(7) f have ms: "getitem f ''measures'' = Inr ms"
    by (auto simp: and_then_Inr_iff)
  have "map fst (zip cns rfs) = take (length rfs) cns"
    by (cases "length cns \<le> length rfs") (simp_all add: map_fst_zip_take min_def)
  with assms(6) have "dict_from [] (zip cns rfs) = Inr (dict_of_pairs (zip cns rfs))"
    by (simp add: dict_from_Inr dict_of_pairs_def)
  with f tn k cn rf ms assms(3,5) show ?thesis
    by (simp add: build_facts_def)
qed

subsection \<open>How a load fails\<close>














subsection \<open>The scenarios, evaluated\<close>

lemmas loader_defs =
  cube_of_config_def build_facts_def build_dimension_def build_columns_def column_pair_def
  setitem_def py_eq_def labster_def facts_section_def orgunit_def

lemma open_disk: "open_file (disk config) (file_path parser None) = Inr (Inr config)"
  by (simp add: open_file_def disk_def one_file_def file_path_def parser_def)

lemma load_disk: "get_cube_config parser (disk config) None = cube_of_config config"
  by (simp add: get_cube_config_opened open_disk)

lemma cube_of_scenario_A: "cube_of_config (scenario_A xa dn) = Inr (cube_A xa dn)"
  by (simp add: loader_defs scenario_A_def cube_A_def)

lemma cube_of_scenario_B: "cube_of_config scenario_B = Inr cube_B"
  by (simp add: loader_defs scenario_B_def cube_B_def)

lemma cube_of_bare_document: "cube_of_config bare_document = Inr bare_cube"
  by (simp add: loader_defs bare_document_def bare_orgunit_def bare_cube_def)

subsection \<open>The resolved path\<close>

lemma ends_with_sep_append [simp]:
  "ends_with_sep (p @ c # cs) = ends_with_sep (c # cs)"
  by (cases "rev cs") (simp_all add: ends_with_sep_def)

lemma get_cube_path_eq:
  "get_cube_path env home =
     with_sep (case env ''OLAPY_PATH'' of Some v \<Rightarrow> v | None \<Rightarrow> home) @
       ''olapy-data/cubes/cubes-config.yml''"
  by (simp add: get_cube_path_def os_path_join_def join_step_def with_sep_def Let_def
      ends_with_sep_def)

section \<open>The claims\<close>

text \<open>
  C1, as amended. Lists \<^verbatim>\<open>columns_names\<close> and \<^verbatim>\<open>refs\<close> of different lengths do not make
  the load fail. Whenever the fields that the loader reads are present, the two values
  can be iterated, the names that get paired are hashable and the dimensions build,
  \<^verbatim>\<open>get_cube_config\<close> returns the descriptor, whatever the two lengths are. Its
  \<^verbatim>\<open>keys\<close> mapping pairs the names with the references over the positions that both
  lists have; what the longer list has beyond them is left out.
\<close>

theorem keys_stop_at_shorter_list:
  assumes "open_file fs (file_path self conf_file) = Inr (Inr config)"
    and "lookup_path config [''facts'', ''table_name''] = Inr tn"
    and "lookup_path config [''facts'', ''keys'', ''columns_names''] = Inr cn"
    and "iter cn = Inr cns"
    and "lookup_path config [''facts'', ''keys'', ''refs''] = Inr rf"
    and "iter rf = Inr rfs"
    and "list_all hashable (take (length rfs) cns)"
    and "lookup_path config [''facts'', ''measures''] = Inr ms"
    and "lookup_path config [''dimensions''] = Inr dv"
    and "iter dv = Inr ds"
    and "build_dimensions ds = Inr dims"
    and "lookup_path config [''xmla_authentication''] = Inr xa"
    and "lookup_path config [''name''] = Inr nm"
    and "lookup_path config [''source''] = Inr src"
  shows "get_cube_config self fs conf_file =
           Inr \<lparr>xmla_authentication = py_bool xa, name = nm, source = src,
                facts = [\<lparr>table_name = tn,
                          keys = dict_of_pairs
                            (zip (take (min (length cns) (length rfs)) cns)
                                 (take (min (length cns) (length rfs)) rfs)),
                          measures = ms\<rparr>],
                dimensions = dims\<rparr>"
proof -
  have "zip (take (min (length cns) (length rfs)) cns) (take (min (length cns) (length rfs)) rfs) =
      zip cns rfs"
    by (metis length_zip take_all_iff order_refl take_zip)
  moreover from build_facts_total [OF assms(2-8)]
  have "build_facts config =
      Inr [\<lparr>table_name = tn, keys = dict_of_pairs (zip cns rfs), measures = ms\<rparr>]" .
  ultimately show ?thesis
    using assms(1,9-14) by (simp add: get_cube_config_opened cube_of_config_def)
qed

theorem keys_stop_at_shorter_list_witness:
  "length [YStr ''departement_id'', YStr ''region_id''] \<noteq> length [YStr ''orgunit.id''] \<and>
   get_cube_config parser (disk scenario_surplus) None =
     Inr (cube_A (YBool False) (YStr ''Organisation''))"
proof -
  have 1: "lookup_path scenario_surplus [''facts'', ''table_name''] = Inr (YStr ''stats_line'')"
    by (simp add: scenario_surplus_def labster_def facts_section_def)
  have 2: "lookup_path scenario_surplus [''facts'', ''keys'', ''columns_names''] =
      Inr (YList [YStr ''departement_id'', YStr ''region_id''])"
    by (simp add: scenario_surplus_def labster_def facts_section_def)
  have 3: "iter (YList [YStr ''departement_id'', YStr ''region_id'']) =
      Inr [YStr ''departement_id'', YStr ''region_id'']"
    by simp
  have 4: "lookup_path scenario_surplus [''facts'', ''keys'', ''refs''] =
      Inr (YList [YStr ''orgunit.id''])"
    by (simp add: scenario_surplus_def labster_def facts_section_def)
  have 5: "iter (YList [YStr ''orgunit.id'']) = Inr [YStr ''orgunit.id'']"
    by simp
  have 6: "list_all hashable
      (take (length [YStr ''orgunit.id'']) [YStr ''departement_id'', YStr ''region_id''])"
    by simp
  have 7: "lookup_path scenario_surplus [''facts'', ''measures''] =
      Inr (YList [YStr ''montant'', YStr ''salaire_brut_mensuel''])"
    by (simp add: scenario_surplus_def labster_def facts_section_def)
  have 8: "lookup_path scenario_surplus [''dimensions''] =
      Inr (YList [orgunit (YStr ''Organisation'')
        [YDict [(YStr ''name'', YStr ''type'')], YDict [(YStr ''name'', YStr ''nom'')]]])"
    by (simp add: scenario_surplus_def labster_def)
  have 9: "iter (YList [orgunit (YStr ''Organisation'')
        [YDict [(YStr ''name'', YStr ''type'')], YDict [(YStr ''name'', YStr ''nom'')]]]) =
      Inr [orgunit (YStr ''Organisation'')
        [YDict [(YStr ''name'', YStr ''type'')], YDict [(YStr ''name'', YStr ''nom'')]]]"
    by simp
  have 10: "build_dimensions [orgunit (YStr ''Organisation'')
        [YDict [(YStr ''name'', YStr ''type'')], YDict [(YStr ''name'', YStr ''nom'')]]] =
      Inr (dimensions (cube_A (YBool False) (YStr ''Organisation'')))"
    by (simp add: loader_defs cube_A_def)
  have 11: "lookup_path scenario_surplus [''xmla_authentication''] = Inr (YBool False)"
    by (simp add: scenario_surplus_def labster_def)
  have 12: "lookup_path scenario_surplus [''name''] = Inr (YStr ''labster'')"
    by (simp add: scenario_surplus_def labster_def)
  have 13: "lookup_path scenario_surplus [''source''] = Inr (YStr ''csv'')"
    by (simp add: scenario_surplus_def labster_def)
  from keys_stop_at_shorter_list [OF open_disk 1 2 3 4 5 6 7 8 9 10 11 12 13]
  show ?thesis
    by (simp add: cube_A_def dict_of_pairs_def)
qed

text \<open>
  C1 as it is stated fails: with two key columns and one reference the load succeeds,
  and the descriptor is the one of scenario A, its \<^verbatim>\<open>keys\<close> mapping cut to one pair.
\<close>

theorem surplus_key_column_counterexample:
  "get_cube_config parser (disk scenario_surplus) None =
     Inr (cube_A (YBool False) (YStr ''Organisation''))"
  by (simp add: load_disk loader_defs scenario_surplus_def cube_A_def)







text \<open>
  C4. In a loaded document, the \<^verbatim>\<open>columns\<close> mapping of a dimension lists its keys in
  the order in which the column entries declare their names. A name that is declared
  again stays where it was declared first, as in every mapping; when the names are
  pairwise different, the keys are exactly the declared names, in their order.
\<close>

theorem columns_keep_declaration_order:
  assumes "get_cube_config self fs conf_file = Inr cube"
    and "open_file fs (file_path self conf_file) = Inr (Inr config)"
    and "lookup_path config [''dimensions''] = Inr dv"
    and "iter dv = Inr ds"
    and "i < length ds"
    and "lookup_path (ds ! i) [''dimension'', ''columns''] = Inr cs"
    and "iter cs = Inr cols"
  shows "\<exists>names. map (\<lambda>c. getitem c ''name'') cols = map Inr names \<and>
           map fst (columns (dimensions cube ! i)) = first_occurrences names \<and>
           (distinct_keys names \<longrightarrow> map fst (columns (dimensions cube ! i)) = names)"
proof -
  from loaded_columns [OF assms] obtain pairs
    where pairs: "map column_pair cols = map Inr pairs"
      and cols: "columns (dimensions cube ! i) = dict_of_pairs pairs"
    by blast
  have "map (\<lambda>c. getitem c ''name'') cols = map Inr (map fst pairs)"
    using pairs by (rule column_names)
  moreover have "map fst (columns (dimensions cube ! i)) = first_occurrences (map fst pairs)"
    by (simp add: cols keys_dict_of_pairs)
  ultimately show ?thesis
    using first_occurrences_distinct [of "map fst pairs"] by metis
qed

theorem columns_keep_declaration_order_witness:
  "get_cube_config parser (disk scenario_B) None = Inr cube_B \<and>
   map fst (columns (dimensions cube_B ! 0)) = [YStr ''type'', YStr ''nom'']"
proof -
  have loaded: "get_cube_config parser (disk scenario_B) None = Inr cube_B"
    by (simp add: load_disk cube_of_scenario_B)
  have dims: "lookup_path scenario_B [''dimensions''] =
      Inr (YList [orgunit (YStr ''Organisation'')
        [YDict [(YStr ''name'', YStr ''type'')],
         YDict [(YStr ''name'', YStr ''nom''), (YStr ''column_new_name'', YStr ''Name'')]]])"
    by (simp add: scenario_B_def labster_def)
  have cols: "lookup_path ([orgunit (YStr ''Organisation'')
        [YDict [(YStr ''name'', YStr ''type'')],
         YDict [(YStr ''name'', YStr ''nom''), (YStr ''column_new_name'', YStr ''Name'')]]] ! 0)
        [''dimension'', ''columns''] =
      Inr (YList [YDict [(YStr ''name'', YStr ''type'')],
         YDict [(YStr ''name'', YStr ''nom''), (YStr ''column_new_name'', YStr ''Name'')]])"
    by (simp add: orgunit_def)
  have it: "iter (YList [orgunit (YStr ''Organisation'')
        [YDict [(YStr ''name'', YStr ''type'')],
         YDict [(YStr ''name'', YStr ''nom''), (YStr ''column_new_name'', YStr ''Name'')]]]) =
      Inr [orgunit (YStr ''Organisation'')
        [YDict [(YStr ''name'', YStr ''type'')],
         YDict [(YStr ''name'', YStr ''nom''), (YStr ''column_new_name'', YStr ''Name'')]]]"
    by simp
  have i: "0 < length [orgunit (YStr ''Organisation'')
        [YDict [(YStr ''name'', YStr ''type'')],
         YDict [(YStr ''name'', YStr ''nom''), (YStr ''column_new_name'', YStr ''Name'')]]]"
    by simp
  have it': "iter (YList [YDict [(YStr ''name'', YStr ''type'')],
         YDict [(YStr ''name'', YStr ''nom''), (YStr ''column_new_name'', YStr ''Name'')]]) =
      Inr [YDict [(YStr ''name'', YStr ''type'')],
         YDict [(YStr ''name'', YStr ''nom''), (YStr ''column_new_name'', YStr ''Name'')]]"
    by simp
  from columns_keep_declaration_order [OF loaded open_disk dims it i cols it']
  obtain names where
    names: "map (\<lambda>c. getitem c ''name'')
        [YDict [(YStr ''name'', YStr ''type'')],
         YDict [(YStr ''name'', YStr ''nom''), (YStr ''column_new_name'', YStr ''Name'')]] =
      map Inr names"
    and order: "distinct_keys names \<longrightarrow> map fst (columns (dimensions cube_B ! 0)) = names"
    by blast
  from names have "names = [YStr ''type'', YStr ''nom'']"
    by (auto simp: map_eq_Cons_conv)
  with order loaded show ?thesis
    by (simp add: distinct_keys_def)
qed

text \<open>
  C5, as amended. In a loaded document, the \<^verbatim>\<open>columns\<close> mapping of a dimension is the
  dict of the pairs made for its column entries, one after the other. The pair of an entry
  holds its name and its display name: the value of \<^verbatim>\<open>column_new_name\<close> when the entry
  declares it, and the name of the column when it does not. For an entry whose name no
  later entry of the dimension declares again, the mapping sends the name to this display
  name. When several entries declare one name, the mapping holds the name once, with the
  display name of the last of these entries.
\<close>

theorem column_display_name:
  assumes "get_cube_config self fs conf_file = Inr cube"
    and "open_file fs (file_path self conf_file) = Inr (Inr config)"
    and "lookup_path config [''dimensions''] = Inr dv"
    and "iter dv = Inr ds"
    and "i < length ds"
    and "lookup_path (ds ! i) [''dimension'', ''columns''] = Inr cs"
    and "iter cs = Inr cols"
    and "j < length cols"
  shows "\<exists>pairs n v.
           map column_pair cols = map Inr pairs \<and>
           columns (dimensions cube ! i) = dict_of_pairs pairs \<and>
           pairs ! j = (n, v) \<and>
           getitem (cols ! j) ''name'' = Inr n \<and>
           v = (case getitem (cols ! j) ''column_new_name'' of Inr new \<Rightarrow> new | Inl e \<Rightarrow> n) \<and>
           ((\<forall>j' n'. j < j' \<and> j' < length cols \<and> getitem (cols ! j') ''name'' = Inr n'
               \<longrightarrow> \<not> py_eq n' n) \<longrightarrow>
            dict_get (columns (dimensions cube ! i)) n = Some v) \<and>
           (\<exists>l. j \<le> l \<and> l < length cols \<and> py_eq (fst (pairs ! l)) n \<and>
              (\<forall>r. l < r \<and> r < length cols \<longrightarrow> \<not> py_eq (fst (pairs ! r)) n) \<and>
              dict_get (columns (dimensions cube ! i)) n = Some (snd (pairs ! l)))"
proof -
  from loaded_columns [OF assms(1-7)] obtain pairs
    where pairs: "map column_pair cols = map Inr pairs"
      and cols: "columns (dimensions cube ! i) = dict_of_pairs pairs"
    by blast
  from pairs have len: "length pairs = length cols"
    by (metis length_map)
  from pairs have at: "column_pair (cols ! q) = Inr (pairs ! q)" if "q < length cols" for q
    using that len by (metis nth_map)
  define n where "n = fst (pairs ! j)"
  define v where "v = snd (pairs ! j)"
  from at [OF assms(8)] have pj: "column_pair (cols ! j) = Inr (n, v)"
    by (simp add: n_def v_def)
  from column_pair_Inr_D [OF pj] have nm: "getitem (cols ! j) ''name'' = Inr n"
    and rule: "v = (case getitem (cols ! j) ''column_new_name'' of Inr new \<Rightarrow> new | Inl e \<Rightarrow> n)"
    by (simp_all split: sum.splits)
  have "dict_get (columns (dimensions cube ! i)) n = Some v"
    if later: "\<forall>j' n'. j < j' \<and> j' < length cols \<and> getitem (cols ! j') ''name'' = Inr n'
        \<longrightarrow> \<not> py_eq n' n"
  proof -
    have "\<forall>q. j < q \<and> q < length pairs \<longrightarrow> \<not> py_eq (fst (pairs ! q)) (fst (pairs ! j))"
    proof (intro allI impI)
      fix q assume q: "j < q \<and> q < length pairs"
      with at [of q] len have "column_pair (cols ! q) = Inr (pairs ! q)" by simp
      from column_pair_Inr_D [OF this] have "getitem (cols ! q) ''name'' = Inr (fst (pairs ! q))"
        by simp
      with later q len show "\<not> py_eq (fst (pairs ! q)) (fst (pairs ! j))"
        unfolding n_def by metis
    qed
    with dict_get_last_occurrence [of j pairs] assms(8) len
    show ?thesis by (simp add: cols dict_get_dict_of_pairs n_def v_def)
  qed
  moreover have "pairs ! j = (n, v)"
    by (simp add: n_def v_def)
  moreover have "\<exists>l. j \<le> l \<and> l < length cols \<and> py_eq (fst (pairs ! l)) n \<and>
      (\<forall>r. l < r \<and> r < length cols \<longrightarrow> \<not> py_eq (fst (pairs ! r)) n) \<and>
      dict_get (columns (dimensions cube ! i)) n = Some (snd (pairs ! l))"
    using dict_get_final_occurrence [of j pairs] assms(8) len
    by (simp add: cols dict_get_dict_of_pairs n_def)
  ultimately show ?thesis
    using pairs cols nm rule by blast
qed

theorem column_display_name_witness:
  "get_cube_config parser (disk scenario_B) None = Inr cube_B \<and>
   dict_get (columns (dimensions cube_B ! 0)) (YStr ''type'') = Some (YStr ''type'') \<and>
   dict_get (columns (dimensions cube_B ! 0)) (YStr ''nom'') = Some (YStr ''Name'')"
proof -
  let ?cols = "[YDict [(YStr ''name'', YStr ''type'')],
         YDict [(YStr ''name'', YStr ''nom''), (YStr ''column_new_name'', YStr ''Name'')]]"
  have loaded: "get_cube_config parser (disk scenario_B) None = Inr cube_B"
    by (simp add: load_disk cube_of_scenario_B)
  have dims: "lookup_path scenario_B [''dimensions''] =
      Inr (YList [orgunit (YStr ''Organisation'') ?cols])"
    by (simp add: scenario_B_def labster_def)
  have cols: "lookup_path ([orgunit (YStr ''Organisation'') ?cols] ! 0)
        [''dimension'', ''columns''] = Inr (YList ?cols)"
    by (simp add: orgunit_def)
  have it: "iter (YList [orgunit (YStr ''Organisation'') ?cols]) =
      Inr [orgunit (YStr ''Organisation'') ?cols]" by simp
  have it': "iter (YList ?cols) = Inr ?cols" by simp
  have "dict_get (columns (dimensions cube_B ! 0)) (YStr ''type'') = Some (YStr ''type'')"
    using column_display_name [OF loaded open_disk dims it _ cols it', of 0]
    by (auto simp: nth_Cons split: nat.splits)
  moreover
  have "dict_get (columns (dimensions cube_B ! 0)) (YStr ''nom'') = Some (YStr ''Name'')"
    using column_display_name [OF loaded open_disk dims it _ cols it', of 1]
    by (auto simp: nth_Cons split: nat.splits)
  ultimately show ?thesis using loaded by simp
qed

text \<open>
  C5 as it is stated fails for a column that is declared twice: the first entry declares
  the new name \<^verbatim>\<open>Kind\<close>, the second entry declares none, and the mapping that is
  returned gives the column its own name.
\<close>

theorem repeated_column_counterexample:
  "get_cube_config parser (disk scenario_repeated_column) None = Inr cube_repeated_column"
  by (simp add: load_disk loader_defs scenario_repeated_column_def cube_repeated_column_def)

text \<open>
  C6, as amended. In a loaded document, \<^verbatim>\<open>facts\<close> has one element, and its \<^verbatim>\<open>keys\<close>
  mapping is the dict of the pairs of the key-column names and the references, taken
  position for position. It sends a name to the reference at the position of the name;
  for a name that is declared at several positions, this is the last of them. The
  document of scenario A, completed with the \<^verbatim>\<open>xmla_authentication\<close> and the
  \<^verbatim>\<open>displayName\<close> that the loader reads as well, loads to the descriptor of the
  scenario, whose \<^verbatim>\<open>keys\<close> send \<^verbatim>\<open>departement_id\<close> to \<^verbatim>\<open>orgunit.id\<close> and whose
  \<^verbatim>\<open>columns\<close> are \<^verbatim>\<open>type\<close> and \<^verbatim>\<open>nom\<close>, in this order, each under its own name.
\<close>

theorem keys_pair_names_with_refs:
  "(get_cube_config self fs conf_file = Inr cube \<and>
    open_file fs (file_path self conf_file) = Inr (Inr config) \<and>
    lookup_path config [''facts'', ''keys'', ''columns_names''] = Inr cn \<and> iter cn = Inr cns \<and>
    lookup_path config [''facts'', ''keys'', ''refs''] = Inr rf \<and> iter rf = Inr rfs \<longrightarrow>
      (\<exists>f. facts cube = [f] \<and> keys f = dict_of_pairs (zip cns rfs) \<and>
         (\<forall>p. p < length cns \<and> p < length rfs \<and>
              (\<forall>q. p < q \<and> q < length cns \<and> q < length rfs \<longrightarrow> \<not> py_eq (cns ! q) (cns ! p))
            \<longrightarrow> dict_get (keys f) (cns ! p) = Some (rfs ! p)) \<and>
         (\<forall>p. p < length cns \<and> p < length rfs \<longrightarrow>
            (\<exists>l. p \<le> l \<and> l < length cns \<and> l < length rfs \<and> py_eq (cns ! l) (cns ! p) \<and>
               (\<forall>r. l < r \<and> r < length cns \<and> r < length rfs \<longrightarrow>
                  \<not> py_eq (cns ! r) (cns ! p)) \<and>
               dict_get (keys f) (cns ! p) = Some (rfs ! l))))) \<and>
   (open_file fs (file_path self conf_file) = Inr (Inr (scenario_A xa dn)) \<longrightarrow>
      get_cube_config self fs conf_file = Inr (cube_A xa dn)) \<and>
   keys (facts (cube_A xa dn) ! 0) = [(YStr ''departement_id'', YStr ''orgunit.id'')] \<and>
   columns (dimensions (cube_A xa dn) ! 0) =
     [(YStr ''type'', YStr ''type''), (YStr ''nom'', YStr ''nom'')]"
proof (intro conjI impI)
  assume a: "get_cube_config self fs conf_file = Inr cube \<and>
    open_file fs (file_path self conf_file) = Inr (Inr config) \<and>
    lookup_path config [''facts'', ''keys'', ''columns_names''] = Inr cn \<and> iter cn = Inr cns \<and>
    lookup_path config [''facts'', ''keys'', ''refs''] = Inr rf \<and> iter rf = Inr rfs"
  then obtain tn ms where f: "facts cube =
      [\<lparr>table_name = tn, keys = dict_of_pairs (zip cns rfs), measures = ms\<rparr>]"
    using loaded_facts [of self fs conf_file cube config cn cns rf rfs] by blast
  have "dict_get (dict_of_pairs (zip cns rfs)) (cns ! p) = Some (rfs ! p)"
    if p: "p < length cns \<and> p < length rfs \<and>
      (\<forall>q. p < q \<and> q < length cns \<and> q < length rfs \<longrightarrow> \<not> py_eq (cns ! q) (cns ! p))" for p
    using dict_get_last_occurrence [of p "zip cns rfs"] p
    by (simp add: dict_get_dict_of_pairs)
  moreover
  have "\<exists>l. p \<le> l \<and> l < length cns \<and> l < length rfs \<and> py_eq (cns ! l) (cns ! p) \<and>
      (\<forall>r. l < r \<and> r < length cns \<and> r < length rfs \<longrightarrow> \<not> py_eq (cns ! r) (cns ! p)) \<and>
      dict_get (dict_of_pairs (zip cns rfs)) (cns ! p) = Some (rfs ! l)"
    if p: "p < length cns \<and> p < length rfs" for p
  proof -
    from p have "p < length (zip cns rfs)" by simp
    from dict_get_final_occurrence [OF this] obtain l
      where l: "p \<le> l" "l < length (zip cns rfs)"
        and eq: "py_eq (fst (zip cns rfs ! l)) (fst (zip cns rfs ! p))"
        and final: "\<forall>r. l < r \<and> r < length (zip cns rfs) \<longrightarrow>
          \<not> py_eq (fst (zip cns rfs ! r)) (fst (zip cns rfs ! p))"
        and get: "dict_get (rev (zip cns rfs)) (fst (zip cns rfs ! p)) =
          Some (snd (zip cns rfs ! l))"
      by blast
    from l p eq have "py_eq (cns ! l) (cns ! p)" by simp
    moreover from final p
    have "\<forall>r. l < r \<and> r < length cns \<and> r < length rfs \<longrightarrow> \<not> py_eq (cns ! r) (cns ! p)"
      by simp
    moreover from get l p
    have "dict_get (dict_of_pairs (zip cns rfs)) (cns ! p) = Some (rfs ! l)"
      by (simp add: dict_get_dict_of_pairs)
    ultimately show ?thesis using l by auto
  qed
  ultimately show "\<exists>f. facts cube = [f] \<and> keys f = dict_of_pairs (zip cns rfs) \<and>
         (\<forall>p. p < length cns \<and> p < length rfs \<and>
              (\<forall>q. p < q \<and> q < length cns \<and> q < length rfs \<longrightarrow> \<not> py_eq (cns ! q) (cns ! p))
            \<longrightarrow> dict_get (keys f) (cns ! p) = Some (rfs ! p)) \<and>
         (\<forall>p. p < length cns \<and> p < length rfs \<longrightarrow>
            (\<exists>l. p \<le> l \<and> l < length cns \<and> l < length rfs \<and> py_eq (cns ! l) (cns ! p) \<and>
               (\<forall>r. l < r \<and> r < length cns \<and> r < length rfs \<longrightarrow>
                  \<not> py_eq (cns ! r) (cns ! p)) \<and>
               dict_get (keys f) (cns ! p) = Some (rfs ! l)))"
    using f by simp
next
  assume "open_file fs (file_path self conf_file) = Inr (Inr (scenario_A xa dn))"
  then show "get_cube_config self fs conf_file = Inr (cube_A xa dn)"
    by (simp add: get_cube_config_opened cube_of_scenario_A)
next
  show "keys (facts (cube_A xa dn) ! 0) = [(YStr ''departement_id'', YStr ''orgunit.id'')]"
    by (simp add: cube_A_def)
next
  show "columns (dimensions (cube_A xa dn) ! 0) =
     [(YStr ''type'', YStr ''type''), (YStr ''nom'', YStr ''nom'')]"
    by (simp add: cube_A_def)
qed

theorem keys_pair_names_with_refs_witness:
  "get_cube_config parser (disk (scenario_A (YBool False) (YStr ''Organisation''))) None =
     Inr (cube_A (YBool False) (YStr ''Organisation'')) \<and>
   (\<exists>f. facts (cube_A (YBool False) (YStr ''Organisation'')) = [f] \<and>
      dict_get (keys f) (YStr ''departement_id'') = Some (YStr ''orgunit.id''))"
proof -
  let ?A = "scenario_A (YBool False) (YStr ''Organisation'')"
  let ?C = "cube_A (YBool False) (YStr ''Organisation'')"
  note t = keys_pair_names_with_refs [of parser "disk ?A" None ?C ?A
      "YList [YStr ''departement_id'']" "[YStr ''departement_id'']"
      "YList [YStr ''orgunit.id'']" "[YStr ''orgunit.id'']" "YBool False" "YStr ''Organisation''"]
  have loaded: "get_cube_config parser (disk ?A) None = Inr ?C"
    using t open_disk [of ?A] by simp
  have cn: "lookup_path ?A [''facts'', ''keys'', ''columns_names''] =
      Inr (YList [YStr ''departement_id''])"
    by (simp add: scenario_A_def labster_def facts_section_def)
  have rf: "lookup_path ?A [''facts'', ''keys'', ''refs''] = Inr (YList [YStr ''orgunit.id''])"
    by (simp add: scenario_A_def labster_def facts_section_def)
  from t loaded open_disk [of ?A] cn rf
  obtain f where f: "facts ?C = [f]"
    and paired: "\<forall>p. p < length [YStr ''departement_id''] \<and> p < length [YStr ''orgunit.id''] \<and>
      (\<forall>q. p < q \<and> q < length [YStr ''departement_id''] \<and> q < length [YStr ''orgunit.id'']
         \<longrightarrow> \<not> py_eq ([YStr ''departement_id''] ! q) ([YStr ''departement_id''] ! p)) \<longrightarrow>
      dict_get (keys f) ([YStr ''departement_id''] ! p) = Some ([YStr ''orgunit.id''] ! p)"
    by auto
  from paired [THEN spec, of 0]
  have "dict_get (keys f) (YStr ''departement_id'') = Some (YStr ''orgunit.id'')"
    by auto
  with f loaded show ?thesis by blast
qed

text \<open>
  C6 as it is stated fails twice. The document of scenario A with the listed fields and
  no other does not load: its dimension has no \<^verbatim>\<open>displayName\<close>. And a key column that
  is declared at two positions is paired with the second reference only.
\<close>

theorem scenario_as_listed_counterexample:
  "get_cube_config parser (disk scenario_A_as_listed) None = Inl (KeyError ''displayName'') \<and>
   get_cube_config parser (disk scenario_repeated_key) None = Inr cube_repeated_key"
  by (simp add: load_disk loader_defs scenario_A_as_listed_def scenario_repeated_key_def
      cube_repeated_key_def)

text \<open>
  C7, as amended. The path of a loader is fixed when it is made. An explicit path that is
  not the empty string is used verbatim. With no argument, the base directory is the
  value of \<^verbatim>\<open>OLAPY_PATH\<close> when the variable is set and the home directory of the user
  when it is not, and \<^verbatim>\<open>olapy-data/cubes/cubes-config.yml\<close> is appended to it (after a
  \<^verbatim>\<open>/\<close>, unless the base directory is empty or ends with one). The empty string as
  the argument counts as no argument: the test is \<^verbatim>\<open>if cube_config_file:\<close>.
\<close>

theorem resolved_path:
  "cube_config_file (init env home (Some (c # p))) = c # p \<and>
   cube_config_file (init env home None) =
     with_sep (case env ''OLAPY_PATH'' of Some v \<Rightarrow> v | None \<Rightarrow> home) @
       ''olapy-data/cubes/cubes-config.yml'' \<and>
   cube_config_file (init env home (Some [])) = cube_config_file (init env home None)"
  by (simp add: init_def get_cube_path_eq)

text \<open>
  C7 as it is stated fails for the empty string: it is an explicit argument, and the
  loader takes the default path instead of it.
\<close>

theorem empty_path_counterexample:
  "cube_config_file (init (\<lambda>v. None) ''/home/olapy'' (Some [])) =
     ''/home/olapy/olapy-data/cubes/cubes-config.yml''"
  by (simp add: init_def get_cube_path_eq with_sep_def ends_with_sep_def)

text \<open>
  C8. \<^verbatim>\<open>config_file_exists\<close> is true exactly when the path of the loader names a regular
  file. It is a function of the loader and of the file system as it is at the call, and
  it returns a truth value in every case: false when the path names nothing, and true
  once a file is there, whatever held before.
\<close>

theorem config_file_exists_is_file:
  "config_file_exists self fs = (\<exists>r c. fs (cube_config_file self) = Some (File r c)) \<and>
   \<not> config_file_exists self (fs(cube_config_file self := None)) \<and>
   config_file_exists self (fs(cube_config_file self \<mapsto> File r c))"
  by (auto simp: config_file_exists_def isfile_def split: option.splits node.splits)

text \<open>
  C9. The \<^verbatim>\<open>facts\<close> list of every descriptor that \<^verbatim>\<open>get_cube_config\<close> returns has
  exactly one element.
\<close>

theorem facts_has_one_element:
  "get_cube_config self fs conf_file = Inr cube \<Longrightarrow> length (facts cube) = 1"
proof -
  assume "get_cube_config self fs conf_file = Inr cube"
  then obtain config where "cube_of_config config = Inr cube"
    using get_cube_config_Inr_D by blast
  from cube_of_config_Inr_D [OF this] obtain fs' where "build_facts config = Inr fs'"
    and "facts cube = fs'" by auto
  with build_facts_Inr_D [of config fs'] show ?thesis by auto
qed

theorem facts_has_one_element_witness:
  "get_cube_config parser (disk (scenario_A (YBool False) (YStr ''Organisation''))) None =
     Inr (cube_A (YBool False) (YStr ''Organisation'')) \<and>
   length (facts (cube_A (YBool False) (YStr ''Organisation''))) = 1"
proof -
  have loaded:
    "get_cube_config parser (disk (scenario_A (YBool False) (YStr ''Organisation''))) None =
       Inr (cube_A (YBool False) (YStr ''Organisation''))"
    by (simp add: load_disk cube_of_scenario_A)
  from loaded facts_has_one_element [OF loaded] show ?thesis by simp
qed

text \<open>
  C10. A dimension entry without a \<^verbatim>\<open>columns\<close> key does not fail: with its
  \<^verbatim>\<open>name\<close> and \<^verbatim>\<open>displayName\<close> it builds a dimension whose \<^verbatim>\<open>columns\<close> mapping is
  empty, and in every loaded document the dimension of such an entry has an empty
  \<^verbatim>\<open>columns\<close> mapping.
\<close>

theorem dimension_without_columns:
  "(getitem dimension ''dimension'' = Inr d \<and>
    getitem d ''columns'' = Inl (KeyError ''columns'') \<and>
    getitem d ''name'' = Inr n \<and> getitem d ''displayName'' = Inr dn \<longrightarrow>
      build_dimension dimension = Inr \<lparr>Dimension.name = n, displayName = dn, columns = []\<rparr>) \<and>
   (get_cube_config self fs conf_file = Inr cube \<and>
    open_file fs (file_path self conf_file) = Inr (Inr config) \<and>
    lookup_path config [''dimensions''] = Inr dv \<and> iter dv = Inr ds \<and> i < length ds \<and>
    lookup_path (ds ! i) [''dimension'', ''columns''] = Inl (KeyError ''columns'') \<longrightarrow>
      columns (dimensions cube ! i) = [])"
proof (intro conjI impI)
  assume a: "getitem dimension ''dimension'' = Inr d \<and>
    getitem d ''columns'' = Inl (KeyError ''columns'') \<and>
    getitem d ''name'' = Inr n \<and> getitem d ''displayName'' = Inr dn"
  with contains_dict [of d "''name''" n "''columns''"]
  have "contains d ''columns'' = Inr False" by simp
  with a show "build_dimension dimension =
      Inr \<lparr>Dimension.name = n, displayName = dn, columns = []\<rparr>"
    by (simp add: build_dimension_def build_columns_def)
next
  assume a: "get_cube_config self fs conf_file = Inr cube \<and>
    open_file fs (file_path self conf_file) = Inr (Inr config) \<and>
    lookup_path config [''dimensions''] = Inr dv \<and> iter dv = Inr ds \<and> i < length ds \<and>
    lookup_path (ds ! i) [''dimension'', ''columns''] = Inl (KeyError ''columns'')"
  then have "build_dimension (ds ! i) = Inr (dimensions cube ! i)"
    using loaded_dimension [of self fs conf_file cube config dv ds i] by simp
  from build_dimension_Inr_D [OF this] obtain d' n' where d': "getitem (ds ! i) ''dimension'' = Inr d'"
    and n': "getitem d' ''name'' = Inr n'"
    and cols: "build_columns (ds ! i) = Inr (columns (dimensions cube ! i))"
    by auto
  from a d' have "getitem d' ''columns'' = Inl (KeyError ''columns'')"
    by simp
  with contains_dict [OF n', of "''columns''"] have "contains d' ''columns'' = Inr False"
    by simp
  with cols d' show "columns (dimensions cube ! i) = []"
    by (simp add: build_columns_def)
qed

theorem dimension_without_columns_witness:
  "build_dimension bare_orgunit =
     Inr \<lparr>Dimension.name = YStr ''orgunit'', displayName = YStr ''Organisation'', columns = []\<rparr> \<and>
   get_cube_config parser (disk bare_document) None = Inr bare_cube \<and>
   columns (dimensions bare_cube ! 0) = []"
proof -
  have loaded: "get_cube_config parser (disk bare_document) None = Inr bare_cube"
    by (simp add: load_disk cube_of_bare_document)
  have entry: "getitem bare_orgunit ''dimension'' =
      Inr (YDict [(YStr ''name'', YStr ''orgunit''), (YStr ''displayName'', YStr ''Organisation'')])"
    by (simp add: bare_orgunit_def)
  have dims: "lookup_path bare_document [''dimensions''] = Inr (YList [bare_orgunit])"
    by (simp add: bare_document_def)
  have lacks: "lookup_path ([bare_orgunit] ! 0) [''dimension'', ''columns''] = Inl (KeyError ''columns'')"
    by (simp add: bare_orgunit_def)
  from dimension_without_columns [of bare_orgunit
      "YDict [(YStr ''name'', YStr ''orgunit''), (YStr ''displayName'', YStr ''Organisation'')]"
      "YStr ''orgunit''" "YStr ''Organisation''" parser "disk bare_document" None bare_cube
      bare_document "YList [bare_orgunit]" "[bare_orgunit]" 0]
    loaded entry dims lacks open_disk [of bare_document]
  show ?thesis by simp
qed

end
